theory Spec2Isabelle
  imports Main
begin

section \<open>Calendar dates at whole-day granularity\<close>

text \<open>
  \<^verbatim>\<open>calendar.py\<close> receives its two bounds as date strings and hands them to pandas, which
  works on timestamps. Every value the module touches is a midnight, so a date is modelled
  as the number of days since 1970-01-01 (the proleptic Gregorian calendar pandas uses).
  The bounds arrive here already parsed; a string pandas cannot parse never reaches the
  code modelled below.
\<close>

type_synonym date = int

definition date_of :: "int \<Rightarrow> int \<Rightarrow> int \<Rightarrow> date" where
  "date_of y m d =
     (let y' = (if m \<le> 2 then y - 1 else y);
          era = y' div 400;
          yoe = y' - era * 400;
          mp = (if m > 2 then m - 3 else m + 9);
          doy = (153 * mp + 2) div 5 + d - 1;
          doe = yoe * 365 + yoe div 4 - yoe div 100 + doy
      in era * 146097 + doe - 719468)"

definition civil_of :: "date \<Rightarrow> int \<times> int \<times> int" where
  "civil_of z =
     (let z' = z + 719468;
          era = z' div 146097;
          doe = z' - era * 146097;
          yoe = (doe - doe div 1460 + doe div 36524 - doe div 146096) div 365;
          doy = doe - (365 * yoe + yoe div 4 - yoe div 100);
          mp = (5 * doy + 2) div 153;
          d = doy - (153 * mp + 2) div 5 + 1;
          m = (if mp < 10 then mp + 3 else mp - 9);
          y = yoe + era * 400
      in (if m \<le> 2 then y + 1 else y, m, d))"

definition year_of :: "date \<Rightarrow> int" where
  "year_of z = fst (civil_of z)"

definition month_of :: "date \<Rightarrow> int" where
  "month_of z = fst (snd (civil_of z))"

datatype weekday = Mon | Tue | Wed | Thu | Fri | Sat | Sun

text \<open>1970-01-01 was a Thursday.\<close>

definition weekday_of :: "date \<Rightarrow> weekday" where
  "weekday_of z =
     (let k = (z + 3) mod 7
      in if k = 0 then Mon else if k = 1 then Tue else if k = 2 then Wed
         else if k = 3 then Thu else if k = 4 then Fri else if k = 5 then Sat else Sun)"


section \<open>The library calls the module makes\<close>

text \<open>
  What the module lets through to its caller: \<open>DataUnavailable\<close> when the holiday
  provider cannot serve a year, \<open>InvalidExtensionValue\<close> for the exception
  \<^verbatim>\<open>pd.date_range\<close> raises when it is given a negative number of periods, \<open>KeyError\<close> for
  a column a frame does not have.
\<close>

datatype error = DataUnavailable | InvalidExtensionValue | KeyError

type_synonym holiday = "date \<times> string"

text \<open>
  The holiday provider is a collaborator, so it is a parameter: for a year it yields that
  year's (date, name) pairs, or nothing when it cannot serve the year. The provider fills
  its table year by year over the years it is given, and \<^verbatim>\<open>sorted(... .items())\<close> orders
  the pairs by date (the table is keyed by date).
\<close>

type_synonym holiday_source = "int \<Rightarrow> holiday list option"

fun country_holidays :: "holiday_source \<Rightarrow> int list \<Rightarrow> error + holiday list" where
  "country_holidays hs [] = Inr []"
| "country_holidays hs (y # ys) =
     (case hs y of
        None \<Rightarrow> Inl DataUnavailable
      | Some rs \<Rightarrow>
          (case country_holidays hs ys of
             Inl e \<Rightarrow> Inl e
           | Inr rest \<Rightarrow> Inr (rs @ rest)))"

text \<open>
  \<^verbatim>\<open>pd.date_range(start, end, freq="YE").year\<close>: the years whose 31 December lies in
  \<open>[start, end]\<close>, ascending.
\<close>

definition year_ends :: "date \<Rightarrow> date \<Rightarrow> int list" where
  "year_ends start end =
     filter (\<lambda>y. start \<le> date_of y 12 31 \<and> date_of y 12 31 \<le> end)
       [year_of start .. year_of end]"

text \<open>
  \<^verbatim>\<open>pd.date_range(start=d, periods=n, freq='D')\<close>: \<open>n\<close> consecutive days from \<open>d\<close>; pandas
  raises on a negative number of periods.
\<close>

definition date_range_periods :: "date \<Rightarrow> int \<Rightarrow> error + date list" where
  "date_range_periods d n =
     (if n < 0 then Inl InvalidExtensionValue else Inr (map (\<lambda>k. d + k) [0 .. n - 1]))"

text \<open>
  \<^verbatim>\<open>pd.date_range(start, end, freq=CustomBusinessDay(weekmask, holidays))\<close>: the days of
  \<open>[start, end]\<close> whose weekday is in the mask and that are no holiday, ascending.
\<close>

definition bdate_range :: "weekday list \<Rightarrow> date list \<Rightarrow> date \<Rightarrow> date \<Rightarrow> date list" where
  "bdate_range weekmask hols start end =
     filter (\<lambda>d. weekday_of d \<in> set weekmask \<and> d \<notin> set hols) [start .. end]"

text \<open>
  \<^verbatim>\<open>Series.str.contains(pat, case=False)\<close> for a pattern without regular-expression
  metacharacters: a substring test that ignores the case of ASCII letters.
\<close>

definition lower_char :: "char \<Rightarrow> char" where
  "lower_char c =
     (let n = (of_char c :: nat) in if 65 \<le> n \<and> n \<le> 90 then char_of (n + 32) else c)"

fun is_prefix :: "string \<Rightarrow> string \<Rightarrow> bool" where
  "is_prefix [] s = True"
| "is_prefix (p # ps) [] = False"
| "is_prefix (p # ps) (c # cs) = (p = c \<and> is_prefix ps cs)"

fun has_substring :: "string \<Rightarrow> string \<Rightarrow> bool" where
  "has_substring pat [] = is_prefix pat []"
| "has_substring pat (c # cs) = (is_prefix pat (c # cs) \<or> has_substring pat cs)"

definition str_contains_nocase :: "string \<Rightarrow> string \<Rightarrow> bool" where
  "str_contains_nocase pat s = has_substring (map lower_char pat) (map lower_char s)"

text \<open>
  A data frame is its columns in order, each a name and its values. Dates, monthly
  periods (months since January 1970, the ordinal pandas keeps) and counts are all
  integers here.
\<close>

type_synonym frame = "(string \<times> int list) list"

definition frame_size :: "frame \<Rightarrow> nat" where
  "frame_size df = (case df of [] \<Rightarrow> 0 | (_, col) # _ \<Rightarrow> length col * length df)"

definition column :: "frame \<Rightarrow> string \<Rightarrow> error + int list" where
  "column df name = (case map_of df name of None \<Rightarrow> Inl KeyError | Some col \<Rightarrow> Inr col)"

definition to_period_M :: "date \<Rightarrow> int" where
  "to_period_M d = (year_of d - 1970) * 12 + (month_of d - 1)"

text \<open>
  \<^verbatim>\<open>groupby(key).size()\<close>: one row per key that occurs, keys ascending, with the number of
  rows that carry it.
\<close>

definition groupby_size :: "int list \<Rightarrow> (int \<times> int) list" where
  "groupby_size keys = map (\<lambda>k. (k, int (length (filter (\<lambda>x. x = k) keys)))) (sort (remdups keys))"


section \<open>working\_date\<close>

definition idul_fitri_label :: string where
  "idul_fitri_label = ''Hari kedua dari Hari Raya Idul Fitri (perkiraan)''"

definition seasonal_event :: "holiday list \<Rightarrow> holiday list" where
  "seasonal_event holiday =
     filter (\<lambda>row. snd row = idul_fitri_label
                  \<or> str_contains_nocase ''Hari Raya Natal'' (snd row)
                  \<or> str_contains_nocase ''Tahun Baru Masehi'' (snd row)) holiday"

text \<open>The branch a seasonal row takes in the loop, as the extension count it reads.\<close>

definition row_periods :: "int option \<Rightarrow> int option \<Rightarrow> int option \<Rightarrow> holiday \<Rightarrow> int option" where
  "row_periods ied_fitr christmas new_year row =
     (if snd row = idul_fitri_label then ied_fitr
      else if snd row = ''Hari Raya Natal'' then christmas
      else new_year)"

fun additional_holiday ::
  "int option \<Rightarrow> int option \<Rightarrow> int option \<Rightarrow> holiday list \<Rightarrow> holiday list \<Rightarrow> error + holiday list"
where
  "additional_holiday ied_fitr christmas new_year [] acc = Inr acc"
| "additional_holiday ied_fitr christmas new_year (row # rows) acc =
     (case row_periods ied_fitr christmas new_year row of
        None \<Rightarrow> additional_holiday ied_fitr christmas new_year rows acc
      | Some n \<Rightarrow>
          (case date_range_periods (fst row) n of
             Inl e \<Rightarrow> Inl e
           | Inr ds \<Rightarrow>
               additional_holiday ied_fitr christmas new_year rows
                 (acc @ map (\<lambda>d. (d, ''extend '' @ snd row)) ds)))"

text \<open>The holiday frame after line 79: base records and extension records, by date.\<close>

definition holiday_table ::
  "holiday_source \<Rightarrow> date \<Rightarrow> date \<Rightarrow> int option \<Rightarrow> int option \<Rightarrow> int option \<Rightarrow> error + holiday list"
where
  "holiday_table hs start end ied_fitr christmas new_year =
     (case country_holidays hs (year_ends start end) of
        Inl e \<Rightarrow> Inl e
      | Inr items \<Rightarrow>
          (let holiday = sort_key fst items
           in case additional_holiday ied_fitr christmas new_year (seasonal_event holiday) [] of
                Inl e \<Rightarrow> Inl e
              | Inr extra \<Rightarrow> Inr (sort_key fst (holiday @ extra))))"

definition workday_type :: "int option \<Rightarrow> weekday list" where
  "workday_type type =
     (if type = None \<or> type = Some 0 then [Mon, Tue, Wed, Thu, Fri, Sat]
      else [Mon, Tue, Wed, Thu, Fri])"

definition working_date ::
  "holiday_source \<Rightarrow> date \<Rightarrow> date \<Rightarrow> int option \<Rightarrow> int option \<Rightarrow> int option \<Rightarrow> int option
     \<Rightarrow> error + frame"
where
  "working_date hs start end type ied_fitr christmas new_year =
     (case holiday_table hs start end ied_fitr christmas new_year of
        Inl e \<Rightarrow> Inl e
      | Inr holiday \<Rightarrow>
          Inr [(''Working Date'', bdate_range (workday_type type) (map fst holiday) start end)])"


section \<open>total\_working\_day and working\_day\<close>

definition total_working_day ::
  "holiday_source \<Rightarrow> date \<Rightarrow> date \<Rightarrow> int option \<Rightarrow> int option \<Rightarrow> int option \<Rightarrow> int option
     \<Rightarrow> error + nat"
where
  "total_working_day hs start end type ied_fitr christmas new_year =
     (case working_date hs start end type ied_fitr christmas new_year of
        Inl e \<Rightarrow> Inl e
      | Inr wd \<Rightarrow> Inr (frame_size wd))"

definition working_day ::
  "holiday_source \<Rightarrow> date \<Rightarrow> date \<Rightarrow> int option \<Rightarrow> int option \<Rightarrow> int option \<Rightarrow> int option
     \<Rightarrow> error + frame"
where
  "working_day hs start end type ied_fitr christmas new_year =
     (case working_date hs start end type ied_fitr christmas new_year of
        Inl e \<Rightarrow> Inl e
      | Inr wd \<Rightarrow>
          (case column wd ''Working Date'' of
             Inl e \<Rightarrow> Inl e
           | Inr dates \<Rightarrow>
               (let wd' = wd @ [(''Year-Month'', map to_period_M dates)]
                in case column wd' ''Year-Month'' of
                     Inl e \<Rightarrow> Inl e
                   | Inr keys \<Rightarrow>
                       (let monthly_count = groupby_size keys
                        in Inr [(''Year-Month'', map fst monthly_count),
                                (''Working Days'', map snd monthly_count)]))))"


section \<open>A holiday table to run the module on\<close>

text \<open>A sample of the Indonesian national holidays of 2025, under Indonesian names.\<close>

definition holidays_2025 :: "holiday list" where
  "holidays_2025 =
     [(date_of 2025 1 1, ''Tahun Baru Masehi''),
      (date_of 2025 1 27, ''Isra Mikraj Nabi Muhammad''),
      (date_of 2025 1 29, ''Tahun Baru Imlek''),
      (date_of 2025 3 31, ''Hari Raya Idul Fitri''),
      (date_of 2025 4 1, ''Hari kedua dari Hari Raya Idul Fitri''),
      (date_of 2025 12 25, ''Hari Raya Natal'')]"

definition id_source :: holiday_source where
  "id_source y = (if y = 2025 then Some holidays_2025 else Some [])"

text \<open>
  A table in which Christmas shares its date with another holiday: the provider keeps one
  entry per date and joins the names of the holidays that fall on it with \<open>; \<close>.
\<close>

definition holidays_shared_date :: "holiday list" where
  "holidays_shared_date =
     [(date_of 2041 12 25, ''Hari Raya Natal; Tahun Baru Islam (perkiraan)'')]"

definition shared_date_source :: holiday_source where
  "shared_date_source y = (if y = 2041 then Some holidays_shared_date else Some [])"




section \<open>Facts about the library calls and the extension loop\<close>

lemma bdate_range_strict: "sorted_wrt (<) (bdate_range m h s e)"
  unfolding bdate_range_def
  by (intro sorted_wrt_filter) (simp add: strict_sorted_iff)

lemma bdate_range_within: "d \<in> set (bdate_range m h s e) \<Longrightarrow> s \<le> d \<and> d \<le> e"
  by (simp add: bdate_range_def)

lemma bdate_range_mask: "d \<in> set (bdate_range m h s e) \<Longrightarrow> weekday_of d \<in> set m"
  by (simp add: bdate_range_def)

lemma bdate_range_empty: "e < s \<Longrightarrow> bdate_range m h s e = []"
  by (simp add: bdate_range_def)

lemma year_ends_empty: "e < s \<Longrightarrow> year_ends s e = []"
  by (auto simp add: year_ends_def filter_empty_conv)

lemma date_range_periods_zero: "date_range_periods d 0 = Inr []"
  by (simp add: date_range_periods_def)

lemma additional_zero_ied:
  "additional_holiday (Some 0) c n rows acc = additional_holiday None c n rows acc"
proof (induction rows arbitrary: acc)
  case Nil
  show ?case by simp
next
  case (Cons row rows)
  show ?case
  proof (cases "snd row = idul_fitri_label")
    case True
    then show ?thesis using Cons.IH
      by (simp add: row_periods_def date_range_periods_zero)
  next
    case False
    then have "row_periods (Some 0) c n row = row_periods None c n row"
      by (simp add: row_periods_def)
    then show ?thesis using Cons.IH
      by (simp split: option.splits sum.splits)
  qed
qed

lemma additional_zero_christmas:
  "additional_holiday i (Some 0) n rows acc = additional_holiday i None n rows acc"
proof (induction rows arbitrary: acc)
  case Nil
  show ?case by simp
next
  case (Cons row rows)
  show ?case
  proof (cases "snd row \<noteq> idul_fitri_label \<and> snd row = ''Hari Raya Natal''")
    case True
    then have "row_periods i (Some 0) n row = Some 0" and "row_periods i None n row = None"
      by (auto simp add: row_periods_def)
    then show ?thesis using Cons.IH
      by (simp add: date_range_periods_zero)
  next
    case False
    then have "row_periods i (Some 0) n row = row_periods i None n row"
      by (auto simp add: row_periods_def)
    then show ?thesis using Cons.IH
      by (simp split: option.splits sum.splits)
  qed
qed

lemma additional_zero_new_year:
  "additional_holiday i c (Some 0) rows acc = additional_holiday i c None rows acc"
proof (induction rows arbitrary: acc)
  case Nil
  show ?case by simp
next
  case (Cons row rows)
  show ?case
  proof (cases "snd row \<noteq> idul_fitri_label \<and> snd row \<noteq> ''Hari Raya Natal''")
    case True
    then show ?thesis using Cons.IH
      by (simp add: row_periods_def date_range_periods_zero)
  next
    case False
    then have "row_periods i c (Some 0) row = row_periods i c None row"
      by (auto simp add: row_periods_def)
    then show ?thesis using Cons.IH
      by (simp split: option.splits sum.splits)
  qed
qed


lemma length_filter_eq_count: "length (filter (\<lambda>x. x = k) keys) = count_list keys k"
  by (induction keys) simp_all

lemma groupby_size_sum: "sum_list (map snd (groupby_size keys)) = int (length keys)"
proof -
  have "sum_list (map snd (groupby_size keys))
        = sum_list (map (\<lambda>k. int (count_list keys k)) (sort (remdups keys)))"
    by (simp add: groupby_size_def comp_def length_filter_eq_count)
  also have "\<dots> = (\<Sum>k \<in> set keys. int (count_list keys k))"
    by (subst sum_list_distinct_conv_sum_set) simp_all
  also have "\<dots> = int (\<Sum>k \<in> set keys. count_list keys k)"
    by simp
  also have "\<dots> = int (length keys)"
    by (simp add: sum_count_set)
  finally show ?thesis .
qed

lemma holiday_table_reversed: "e < s \<Longrightarrow> holiday_table hs s e i c n = Inr []"
  by (simp add: holiday_table_def year_ends_empty seasonal_event_def)

lemma holiday_table_zero_ied:
  "holiday_table hs s e (Some 0) c n = holiday_table hs s e None c n"
  by (simp add: holiday_table_def additional_zero_ied Let_def split: sum.splits)

lemma holiday_table_zero_christmas:
  "holiday_table hs s e i (Some 0) n = holiday_table hs s e i None n"
  by (simp add: holiday_table_def additional_zero_christmas Let_def split: sum.splits)

lemma holiday_table_zero_new_year:
  "holiday_table hs s e i c (Some 0) = holiday_table hs s e i c None"
  by (simp add: holiday_table_def additional_zero_new_year Let_def split: sum.splits)


subsection \<open>The module run on the sample table\<close>

lemma jan2025:
  "working_date id_source (date_of 2025 1 1) (date_of 2025 1 31) None (Some 3) None None =
     Inr [(''Working Date'',
       [20089, 20090, 20091, 20092, 20094, 20095, 20096, 20097, 20098,
        20099, 20101, 20102, 20103, 20104, 20105, 20106, 20108, 20109,
        20110, 20111, 20112, 20113, 20115, 20116, 20117, 20118, 20119])]"
  by code_simp

lemma holiday_table_dec2025:
  "holiday_table id_source (date_of 2025 12 22) (date_of 2025 12 31) (Some 3) None None
     = Inr [(20089, ''Tahun Baru Masehi''), (20115, ''Isra Mikraj Nabi Muhammad''),
            (20117, ''Tahun Baru Imlek''), (20178, ''Hari Raya Idul Fitri''),
            (20179, ''Hari kedua dari Hari Raya Idul Fitri''), (20447, ''Hari Raya Natal'')]"
  by code_simp

lemma five_day_dec2025:
  "filter (\<lambda>d. weekday_of d \<in> {Mon, Tue, Wed, Thu, Fri}
              \<and> d \<notin> set (map fst
                  [(20089, ''Tahun Baru Masehi''), (20115, ''Isra Mikraj Nabi Muhammad''),
                   (20117, ''Tahun Baru Imlek''), (20178, ''Hari Raya Idul Fitri''),
                   (20179, ''Hari kedua dari Hari Raya Idul Fitri''),
                   (20447, ''Hari Raya Natal'')]))
     [date_of 2025 12 22 .. date_of 2025 12 31]
   = [20444, 20445, 20446, 20448, 20451, 20452, 20453]"
  by code_simp

lemma jan2025_monthly:
  "working_day id_source (date_of 2025 1 1) (date_of 2025 1 31) None (Some 3) None None =
     Inr [(''Year-Month'', [660]), (''Working Days'', [27])]"
  by code_simp

lemma dec2025_unset:
  "working_date id_source (date_of 2025 12 20) (date_of 2025 12 31) None None None None =
     Inr [(''Working Date'', [20442, 20444, 20445, 20446, 20448, 20449, 20451, 20452, 20453])]"
  by code_simp





section \<open>The claims\<close>

text \<open>
  Claim C5. When \<open>start\<close> lies after \<open>end\<close>, \<open>working_date\<close> returns a frame whose
  \<open>Working Date\<close> column is empty and \<open>total_working_day\<close> returns 0; neither fails,
  whatever the provider and the extension counts are.
\<close>

theorem reversed_range_is_empty:
  assumes "e < s"
  shows "working_date hs s e t i c n = Inr [(''Working Date'', [])]
       \<and> total_working_day hs s e t i c n = Inr 0"
  using assms
  by (simp add: working_date_def total_working_day_def holiday_table_reversed
        bdate_range_empty frame_size_def)

theorem reversed_range_is_empty_witness:
  "date_of 2025 1 1 < date_of 2025 1 31
   \<and> working_date id_source (date_of 2025 1 31) (date_of 2025 1 1) None (Some 3) None None
       = Inr [(''Working Date'', [])]
   \<and> total_working_day id_source (date_of 2025 1 31) (date_of 2025 1 1) None (Some 3) None None
       = Inr 0"
proof -
  have h: "date_of 2025 1 1 < date_of 2025 1 31"
    by (simp add: date_of_def)
  show ?thesis
    using h reversed_range_is_empty [OF h, of id_source None "Some 3" None None] by simp
qed

text \<open>
  Claim C6. \<open>total_working_day\<close> is the number of dates in the \<open>Working Date\<close> column of
  what \<open>working_date\<close> returns for the same arguments, and fails exactly as it does.
\<close>

theorem total_is_length:
  "total_working_day hs s e t i c n =
     (case working_date hs s e t i c n of
        Inl err \<Rightarrow> Inl err
      | Inr wd \<Rightarrow>
          (case column wd ''Working Date'' of
             Inl err \<Rightarrow> Inl err
           | Inr dates \<Rightarrow> Inr (length dates)))"
  by (simp add: total_working_day_def working_date_def frame_size_def column_def
        split: sum.splits)

theorem total_is_length_witness:
  "total_working_day id_source (date_of 2025 1 1) (date_of 2025 1 31) None (Some 3) None None
     = Inr 27"
  using total_is_length [of id_source "date_of 2025 1 1" "date_of 2025 1 31" None "Some 3" None None]
  by (simp add: jan2025 column_def)

text \<open>
  Claim C7. The counts of the monthly breakdown add up to \<open>total_working_day\<close> for the same
  arguments; the two operations fail together, with the same error.
\<close>

theorem monthly_counts_sum_to_total:
  "(\<forall>err. (working_day hs s e t i c n = Inl err) = (total_working_day hs s e t i c n = Inl err))
   \<and> (\<forall>md. working_day hs s e t i c n = Inr md \<longrightarrow>
         (\<exists>counts k. column md ''Working Days'' = Inr counts
            \<and> total_working_day hs s e t i c n = Inr k
            \<and> sum_list counts = int k))"
proof (cases "holiday_table hs s e i c n")
  case (Inl err)
  then show ?thesis
    by (simp add: working_day_def total_working_day_def working_date_def)
next
  case (Inr hol)
  then show ?thesis
    by (simp add: working_day_def total_working_day_def working_date_def column_def
          frame_size_def groupby_size_sum Let_def)
qed

theorem monthly_counts_sum_to_total_witness:
  "\<exists>counts k. column [(''Year-Month'', [660]), (''Working Days'', [27])] ''Working Days'' = Inr counts
      \<and> total_working_day id_source (date_of 2025 1 1) (date_of 2025 1 31) None (Some 3) None None
          = Inr k
      \<and> sum_list counts = int k"
  using monthly_counts_sum_to_total
    [of id_source "date_of 2025 1 1" "date_of 2025 1 31" None "Some 3" None None]
    jan2025_monthly
  by simp

text \<open>
  Claim C8. For \<open>start \<le> end\<close>, the dates \<open>working_date\<close> returns are strictly increasing
  and each lies in \<open>[start, end]\<close>.
\<close>

theorem working_dates_increasing_within:
  assumes "s \<le> e" and "working_date hs s e t i c n = Inr wd"
  shows "\<exists>dates. column wd ''Working Date'' = Inr dates \<and> sorted_wrt (<) dates
           \<and> (\<forall>d \<in> set dates. s \<le> d \<and> d \<le> e)"
proof -
  from assms(2) obtain hol where "holiday_table hs s e i c n = Inr hol"
    by (cases "holiday_table hs s e i c n") (simp_all add: working_date_def)
  with assms(2) have
    wd: "wd = [(''Working Date'', bdate_range (workday_type t) (map fst hol) s e)]"
    by (simp add: working_date_def)
  show ?thesis
    unfolding wd
    by (simp add: column_def bdate_range_strict bdate_range_within)
qed

theorem working_dates_increasing_within_witness:
  "date_of 2025 1 1 \<le> date_of 2025 1 31
   \<and> (\<exists>dates. column [(''Working Date'',
       [20089, 20090, 20091, 20092, 20094, 20095, 20096, 20097, 20098,
        20099, 20101, 20102, 20103, 20104, 20105, 20106, 20108, 20109,
        20110, 20111, 20112, 20113, 20115, 20116, 20117, 20118, 20119])] ''Working Date'' = Inr dates
        \<and> sorted_wrt (<) dates
        \<and> (\<forall>d \<in> set dates. date_of 2025 1 1 \<le> d \<and> d \<le> date_of 2025 1 31))"
proof -
  have h: "date_of 2025 1 1 \<le> date_of 2025 1 31"
    by (simp add: date_of_def)
  show ?thesis
    using h working_dates_increasing_within [OF h jan2025] by simp
qed

text \<open>
  Claim C9. Any \<open>type\<close> other than \<open>None\<close> and \<open>0\<close>, such as 2 or -1, selects the
  Monday to Friday mask and is never rejected: the call fails only when building the
  holiday frame fails, which does not look at \<open>type\<close>, and otherwise returns exactly the
  days of \<open>[start, end]\<close> that fall on Monday to Friday and are no holiday. That is the
  result for \<open>type = 1\<close>, and no returned date is a Saturday or a Sunday.
\<close>

theorem other_type_is_five_day:
  assumes "t \<noteq> None" and "t \<noteq> Some 0"
  shows "working_date hs s e t i c n =
           (case holiday_table hs s e i c n of
              Inl err \<Rightarrow> Inl err
            | Inr holiday \<Rightarrow>
                Inr [(''Working Date'',
                      filter (\<lambda>d. weekday_of d \<in> {Mon, Tue, Wed, Thu, Fri}
                                  \<and> d \<notin> set (map fst holiday)) [s .. e])])
       \<and> workday_type t = [Mon, Tue, Wed, Thu, Fri]
       \<and> working_date hs s e t i c n = working_date hs s e (Some 1) i c n
       \<and> (\<forall>wd dates. working_date hs s e t i c n = Inr wd
             \<longrightarrow> column wd ''Working Date'' = Inr dates
             \<longrightarrow> (\<forall>d \<in> set dates. weekday_of d \<noteq> Sat \<and> weekday_of d \<noteq> Sun))"
proof -
  have m: "workday_type t = [Mon, Tue, Wed, Thu, Fri]"
    using assms by (simp add: workday_type_def)
  have m1: "workday_type (Some 1) = [Mon, Tue, Wed, Thu, Fri]"
    by (simp add: workday_type_def)
  have explicit: "working_date hs s e t i c n =
           (case holiday_table hs s e i c n of
              Inl err \<Rightarrow> Inl err
            | Inr holiday \<Rightarrow>
                Inr [(''Working Date'',
                      filter (\<lambda>d. weekday_of d \<in> {Mon, Tue, Wed, Thu, Fri}
                                  \<and> d \<notin> set (map fst holiday)) [s .. e])])"
    by (simp add: working_date_def m bdate_range_def split: sum.splits)
  have same: "working_date hs s e t i c n = working_date hs s e (Some 1) i c n"
    by (simp add: working_date_def m m1 split: sum.splits)
  have days: "weekday_of d \<noteq> Sat \<and> weekday_of d \<noteq> Sun"
    if "working_date hs s e t i c n = Inr wd" and "column wd ''Working Date'' = Inr dates"
      and "d \<in> set dates" for wd dates d
  proof -
    from that(1) obtain hol where "holiday_table hs s e i c n = Inr hol"
      by (cases "holiday_table hs s e i c n") (simp_all add: working_date_def)
    with that(1) have
      "wd = [(''Working Date'', bdate_range [Mon, Tue, Wed, Thu, Fri] (map fst hol) s e)]"
      by (simp add: working_date_def m)
    with that(2,3) have "d \<in> set (bdate_range [Mon, Tue, Wed, Thu, Fri] (map fst hol) s e)"
      by (simp add: column_def)
    then have "weekday_of d \<in> set [Mon, Tue, Wed, Thu, Fri]"
      by (rule bdate_range_mask)
    then show ?thesis by auto
  qed
  from explicit m same days show ?thesis by blast
qed

theorem other_type_is_five_day_witness:
  "Some (2::int) \<noteq> None \<and> Some (2::int) \<noteq> Some 0
   \<and> Some (- 1 :: int) \<noteq> None \<and> Some (- 1 :: int) \<noteq> Some 0
   \<and> working_date id_source (date_of 2025 12 22) (date_of 2025 12 31) (Some 2) (Some 3) None None
       = Inr [(''Working Date'', [20444, 20445, 20446, 20448, 20451, 20452, 20453])]
   \<and> working_date id_source (date_of 2025 12 22) (date_of 2025 12 31) (Some (- 1)) (Some 3) None
       None
       = Inr [(''Working Date'', [20444, 20445, 20446, 20448, 20451, 20452, 20453])]"
proof -
  have h1: "Some (2::int) \<noteq> None" and h2: "Some (2::int) \<noteq> Some 0"
    and h3: "Some (- 1 :: int) \<noteq> None" and h4: "Some (- 1 :: int) \<noteq> Some 0"
    by simp_all
  have a: "working_date id_source (date_of 2025 12 22) (date_of 2025 12 31) (Some 2) (Some 3)
      None None = Inr [(''Working Date'', [20444, 20445, 20446, 20448, 20451, 20452, 20453])]"
    using other_type_is_five_day [OF h1 h2, of id_source "date_of 2025 12 22"
        "date_of 2025 12 31" "Some 3" None None]
    by (simp only: holiday_table_dec2025 five_day_dec2025 sum.case)
  have b: "working_date id_source (date_of 2025 12 22) (date_of 2025 12 31) (Some (- 1)) (Some 3)
      None None = Inr [(''Working Date'', [20444, 20445, 20446, 20448, 20451, 20452, 20453])]"
    using other_type_is_five_day [OF h3 h4, of id_source "date_of 2025 12 22"
        "date_of 2025 12 31" "Some 3" None None]
    by (simp only: holiday_table_dec2025 five_day_dec2025 sum.case)
  from h1 h2 h3 h4 a b show ?thesis by blast
qed

text \<open>
  Claim C10. An extension count of 0 behaves as an unset one, for each of the three
  clusters: the loop generates the same extension records, and \<open>working_date\<close>,
  \<open>total_working_day\<close> and \<open>working_day\<close> return the same results.
\<close>

theorem zero_extension_is_unset:
  "additional_holiday (Some 0) c n rows acc = additional_holiday None c n rows acc
   \<and> additional_holiday i (Some 0) n rows acc = additional_holiday i None n rows acc
   \<and> additional_holiday i c (Some 0) rows acc = additional_holiday i c None rows acc
   \<and> working_date hs s e t (Some 0) c n = working_date hs s e t None c n
   \<and> working_date hs s e t i (Some 0) n = working_date hs s e t i None n
   \<and> working_date hs s e t i c (Some 0) = working_date hs s e t i c None
   \<and> total_working_day hs s e t (Some 0) c n = total_working_day hs s e t None c n
   \<and> total_working_day hs s e t i (Some 0) n = total_working_day hs s e t i None n
   \<and> total_working_day hs s e t i c (Some 0) = total_working_day hs s e t i c None
   \<and> working_day hs s e t (Some 0) c n = working_day hs s e t None c n
   \<and> working_day hs s e t i (Some 0) n = working_day hs s e t i None n
   \<and> working_day hs s e t i c (Some 0) = working_day hs s e t i c None"
proof -
  have wd: "working_date hs s e t (Some 0) c n = working_date hs s e t None c n"
    "working_date hs s e t i (Some 0) n = working_date hs s e t i None n"
    "working_date hs s e t i c (Some 0) = working_date hs s e t i c None"
    by (simp_all add: working_date_def holiday_table_zero_ied holiday_table_zero_christmas
          holiday_table_zero_new_year)
  have tot: "total_working_day hs s e t (Some 0) c n = total_working_day hs s e t None c n"
    "total_working_day hs s e t i (Some 0) n = total_working_day hs s e t i None n"
    "total_working_day hs s e t i c (Some 0) = total_working_day hs s e t i c None"
    by (simp_all add: total_working_day_def wd)
  have mon: "working_day hs s e t (Some 0) c n = working_day hs s e t None c n"
    "working_day hs s e t i (Some 0) n = working_day hs s e t i None n"
    "working_day hs s e t i c (Some 0) = working_day hs s e t i c None"
    by (simp_all add: working_day_def wd)
  show ?thesis
    using wd tot mon additional_zero_ied [of c n rows acc]
      additional_zero_christmas [of i n rows acc] additional_zero_new_year [of i c rows acc]
    by simp
qed

theorem zero_extension_is_unset_witness:
  "working_date id_source (date_of 2025 12 20) (date_of 2025 12 31) None None (Some 0) None =
     Inr [(''Working Date'', [20442, 20444, 20445, 20446, 20448, 20449, 20451, 20452, 20453])]"
  using zero_extension_is_unset
    [of None None "[]" "[]" None id_source "date_of 2025 12 20" "date_of 2025 12 31" None]
    dec2025_unset
  by simp




text \<open>
  Claim C1 on the code: for 1 to 31 January 2025 no 31 December lies in the range, so the
  list of years handed to the provider is empty and 2025, the year of \<open>end\<close>, is not
  looked up; for 1 June 2024 to 30 June 2025 only 2024 is.
\<close>

theorem end_year_not_looked_up:
  "year_of (date_of 2025 1 31) = 2025
   \<and> year_ends (date_of 2025 1 1) (date_of 2025 1 31) = []
   \<and> country_holidays id_source (year_ends (date_of 2025 1 1) (date_of 2025 1 31)) = Inr []
   \<and> year_of (date_of 2025 6 30) = 2025
   \<and> year_ends (date_of 2024 6 1) (date_of 2025 6 30) = [2024]"
  by code_simp

text \<open>
  Claim C2 on the code: in the scenario the holiday frame is empty, so 1 January 2025, a
  Wednesday and New Year's Day in the provider's table, is returned as a working date;
  the count is 27, the 31 days less the four Sundays.
\<close>

theorem new_year_2025_returned_as_working:
  "id_source 2025 = Some holidays_2025
   \<and> (date_of 2025 1 1, ''Tahun Baru Masehi'') \<in> set holidays_2025
   \<and> holiday_table id_source (date_of 2025 1 1) (date_of 2025 1 31) (Some 3) None None = Inr []
   \<and> working_date id_source (date_of 2025 1 1) (date_of 2025 1 31) None (Some 3) None None =
       Inr [(''Working Date'',
         [date_of 2025 1 1, 20090, 20091, 20092, 20094, 20095, 20096, 20097, 20098,
          20099, 20101, 20102, 20103, 20104, 20105, 20106, 20108, 20109,
          20110, 20111, 20112, 20113, 20115, 20116, 20117, 20118, 20119])]
   \<and> total_working_day id_source (date_of 2025 1 1) (date_of 2025 1 31) None (Some 3) None None
       = Inr 27"
  by code_simp

text \<open>
  Claim C3 on the code: a Christmas row that the filter matches by substring, but whose
  name is not exactly \<open>Hari Raya Natal\<close>, takes the last branch of the loop and reads the
  New Year count. With \<open>christmas = 2\<close> it gets no extension record and 26 December stays a
  working date; with \<open>new_year = 2\<close> it gets two.
\<close>

theorem christmas_row_takes_new_year_count:
  "seasonal_event holidays_shared_date = holidays_shared_date
   \<and> row_periods None (Some 2) None
       (date_of 2041 12 25, ''Hari Raya Natal; Tahun Baru Islam (perkiraan)'') = None
   \<and> additional_holiday None (Some 2) None (seasonal_event holidays_shared_date) [] = Inr []
   \<and> working_date shared_date_source (date_of 2041 12 23) (date_of 2041 12 31) None None
       (Some 2) None
       = Inr [(''Working Date'',
           [date_of 2041 12 23, date_of 2041 12 24, date_of 2041 12 26, date_of 2041 12 27,
            date_of 2041 12 28, date_of 2041 12 30, date_of 2041 12 31])]
   \<and> additional_holiday None None (Some 2) (seasonal_event holidays_shared_date) []
       = Inr [(date_of 2041 12 25, ''extend Hari Raya Natal; Tahun Baru Islam (perkiraan)''),
              (date_of 2041 12 26, ''extend Hari Raya Natal; Tahun Baru Islam (perkiraan)'')]"
  by code_simp

end
